theory Spec2Isabelle
  imports Main
begin

section \<open>Results of Go calls\<close>

text \<open>
  A Go \<open>error\<close> value. \<open>Errorf\<close> stands for \<open>errors.New\<close> and \<open>fmt.Errorf\<close> (the message),
  \<open>AwsErr\<close> for an error of the load-balancer SDK (code and message), \<open>ApiErr\<close> for an error
  of the cluster client (whether \<open>apierrors.IsNotFound\<close> holds of it, and the message).
\<close>

datatype error = Errorf string | AwsErr string string | ApiErr bool string

fun IsNotFound :: "error \<Rightarrow> bool" where
  "IsNotFound (ApiErr nf _) = nf"
| "IsNotFound _ = False"

text \<open>A run-time panic ends the call without a return value.\<close>

datatype panic = NilMapAssignment | NilPointerDereference | IndexOutOfRange | PanicValue string

datatype 'a exec = Returns 'a | Panics panic

section \<open>The allocation ledger (store/store.go)\<close>

record Allocation =
  ListenerArn :: string
  TargetArn :: string
  NLB :: string
  Port :: int
  ServiceNamespacedName :: string

text \<open>
  \<open>map[string]map[int]*string\<close> and \<open>map[string]*Allocation\<close>. Every pointer the code stores
  is the address of a fresh local, never nil, so a present entry carries its value.
\<close>

type_synonym typeNlbAllocationMap = "string \<rightharpoonup> (int \<rightharpoonup> string)"
type_synonym typeServiceAllocationMap = "string \<rightharpoonup> Allocation"

record store =
  ServiceAllocationMap :: typeServiceAllocationMap
  NlbAllocationMap :: typeNlbAllocationMap
  NlbHosts :: "string \<rightharpoonup> string"

text \<open>The read \<open>m[nlb][port]\<close>: indexing a missing (nil) inner map yields no entry.\<close>

definition lookup2 :: "typeNlbAllocationMap \<Rightarrow> string \<Rightarrow> int \<Rightarrow> string option" where
  "lookup2 m nlb port = (case m nlb of None \<Rightarrow> None | Some ports \<Rightarrow> ports port)"

definition GetNLBHost :: "store \<Rightarrow> string \<Rightarrow> string" where
  "GetNLBHost s nlb = (case NlbHosts s nlb of None \<Rightarrow> [] | Some h \<Rightarrow> h)"

definition GetAllocationForSVC :: "store \<Rightarrow> string \<Rightarrow> Allocation option" where
  "GetAllocationForSVC s name = ServiceAllocationMap s name"

definition GetListenerArnFor :: "store \<Rightarrow> string \<Rightarrow> string exec" where
  "GetListenerArnFor s serviceNamespacedName =
     (case ServiceAllocationMap s serviceNamespacedName of
        None \<Rightarrow> Panics NilPointerDereference
      | Some a \<Rightarrow> Returns (ListenerArn a))"

text \<open>
  The ledger is mutated in place; the model returns the ledger as the call leaves it, also
  when the call panics half-way.
\<close>

definition AssignNLBAndPortToServiceInNamespace ::
  "store \<Rightarrow> string \<Rightarrow> int \<Rightarrow> string \<Rightarrow> string \<Rightarrow> string \<Rightarrow> error option exec \<times> store" where
  "AssignNLBAndPortToServiceInNamespace s nlb port serviceNamespacedName listenerArn targetArn =
     (if (case lookup2 (NlbAllocationMap s) nlb port of
            None \<Rightarrow> False | Some val \<Rightarrow> val \<noteq> serviceNamespacedName)
      then (Returns (Some (Errorf (''port reserved for svc '' @
              (case lookup2 (NlbAllocationMap s) nlb port of None \<Rightarrow> [] | Some val \<Rightarrow> val)))), s)
      else
        let value = \<lparr>ListenerArn = listenerArn, TargetArn = targetArn, NLB = nlb, Port = port,
                     ServiceNamespacedName = serviceNamespacedName\<rparr>;
            s1 = s\<lparr>ServiceAllocationMap := (ServiceAllocationMap s)(serviceNamespacedName \<mapsto> value)\<rparr>
        in (case NlbAllocationMap s1 nlb of
              None \<Rightarrow> (Panics NilMapAssignment, s1)
            | Some ports \<Rightarrow>
                (Returns None,
                 s1\<lparr>NlbAllocationMap :=
                      (NlbAllocationMap s1)(nlb \<mapsto> ports(port \<mapsto> ServiceNamespacedName value))\<rparr>)))"

definition ReleaseNLBAndPortForService :: "store \<Rightarrow> string \<Rightarrow> string \<Rightarrow> int \<Rightarrow> store" where
  "ReleaseNLBAndPortForService s serviceNamespacedName nlb port =
     (case ServiceAllocationMap s serviceNamespacedName of
        None \<Rightarrow> s
      | Some val \<Rightarrow>
          let s1 = (case NlbAllocationMap s (NLB val) of
                      None \<Rightarrow> s
                    | Some ports \<Rightarrow>
                        if ports (Port val) \<noteq> None
                        then s\<lparr>NlbAllocationMap :=
                                 (NlbAllocationMap s)(NLB val \<mapsto> ports(Port val := None))\<rparr>
                        else s)
          in s1\<lparr>ServiceAllocationMap := (ServiceAllocationMap s1)(serviceNamespacedName := None)\<rparr>)"

text \<open>The inner loop \<open>for port := 9000; port < 9050; port++\<close>, from the current \<open>port\<close> on.\<close>

function port_loop :: "(int \<rightharpoonup> string) \<Rightarrow> int \<Rightarrow> int option" where
  "port_loop ports port =
     (if port < 9050
      then (if ports port = None then Some port else port_loop ports (port + 1))
      else None)"
  by pat_completeness auto
termination
  by (relation "measure (\<lambda>(ports, port). nat (9050 - port))") auto

declare port_loop.simps [simp del]

text \<open>
  The outer loop \<open>for nlb, ports := range s.NlbAllocationMap\<close>. Go leaves the order in which
  \<open>range\<close> visits a map unspecified, and the runtime varies it from one loop to the next; the
  order of one run is the list \<open>order\<close>, an enumeration of the keys (\<open>range_order\<close>).
\<close>

definition range_order :: "('k \<rightharpoonup> 'v) \<Rightarrow> 'k list \<Rightarrow> bool" where
  "range_order m order \<longleftrightarrow> distinct order \<and> set order = dom m"

fun nlb_loop :: "typeNlbAllocationMap \<Rightarrow> string list \<Rightarrow> (string \<times> (int \<rightharpoonup> string) \<times> int) option" where
  "nlb_loop m [] = None"
| "nlb_loop m (nlb # rest) =
     (case m nlb of
        None \<Rightarrow> nlb_loop m rest
      | Some ports \<Rightarrow>
          (case port_loop ports 9000 of
             Some port \<Rightarrow> Some (nlb, ports, port)
           | None \<Rightarrow> nlb_loop m rest))"

definition GetVacantNLBAndPortForService ::
  "string list \<Rightarrow> store \<Rightarrow> string \<Rightarrow> (error + string \<times> int) \<times> store" where
  "GetVacantNLBAndPortForService order s serviceNamespacedName =
     (case nlb_loop (NlbAllocationMap s) order of
        Some (nlb, ports, port) \<Rightarrow>
          (Inr (nlb, port),
           s\<lparr>NlbAllocationMap := (NlbAllocationMap s)(nlb \<mapsto> ports(port \<mapsto> serviceNamespacedName))\<rparr>)
      | None \<Rightarrow> (Inl (Errorf ''no vacancy found''), s))"

text \<open>
  \<open>strings.Split\<close> with a separator of one character: the pieces between the separators,
  one piece more than there are separators.
\<close>

fun Split :: "string \<Rightarrow> char \<Rightarrow> string list" where
  "Split [] sep = [[]]"
| "Split (c # cs) sep =
     (if c = sep then [] # Split cs sep
      else (case Split cs sep of [] \<Rightarrow> [[c]] | piece # pieces \<Rightarrow> (c # piece) # pieces))"

text \<open>The loop of \<open>loadNlbData\<close> over the entries of \<open>NLB_LIST\<close>.\<close>

fun loadNlbData_loop ::
  "string list \<Rightarrow> typeNlbAllocationMap \<times> (string \<rightharpoonup> string) \<Rightarrow>
   (typeNlbAllocationMap \<times> (string \<rightharpoonup> string)) exec" where
  "loadNlbData_loop [] (nlbData, nlbHosts) = Returns (nlbData, nlbHosts)"
| "loadNlbData_loop (nlbWithHost # rest) (nlbData, nlbHosts) =
     (case Split nlbWithHost CHR '':'' of
        nlb # nlbHost # _ \<Rightarrow>
          if nlb \<noteq> []
          then loadNlbData_loop rest (nlbData(nlb \<mapsto> Map.empty), nlbHosts(nlb \<mapsto> nlbHost))
          else loadNlbData_loop rest (nlbData, nlbHosts)
      | _ \<Rightarrow> Panics IndexOutOfRange)"

text \<open>\<open>loadNlbData\<close>, from the value of the environment variable \<open>NLB_LIST\<close>.\<close>

definition loadNlbData :: "string \<Rightarrow> (typeNlbAllocationMap \<times> (string \<rightharpoonup> string)) exec" where
  "loadNlbData nlbCommaSeperatedList =
     (let nlbList = Split nlbCommaSeperatedList CHR '','' in
      if length nlbList = 0
      then Panics (PanicValue ''env var NLB_LIST is empty. Needs comma seperated list as of key:value pair. No load balancers to manage.'')
      else loadNlbData_loop nlbList (Map.empty, Map.empty))"

definition New :: "string \<Rightarrow> store exec" where
  "New nlbCommaSeperatedList =
     (case loadNlbData nlbCommaSeperatedList of
        Panics p \<Rightarrow> Panics p
      | Returns (nlbData, nlbHostData) \<Rightarrow>
          Returns \<lparr>ServiceAllocationMap = Map.empty, NlbAllocationMap = nlbData,
                   NlbHosts = nlbHostData\<rparr>)"

subsection \<open>Sequences of ledger operations\<close>

datatype ledger_op =
    Assign string int string string string
  | GetVacant "string list" string
  | Release string string int

fun ledger_step :: "store \<Rightarrow> ledger_op \<Rightarrow> panic option \<times> store" where
  "ledger_step s (Assign nlb port svc listenerArn targetArn) =
     (case AssignNLBAndPortToServiceInNamespace s nlb port svc listenerArn targetArn of
        (Panics p, s') \<Rightarrow> (Some p, s')
      | (Returns _, s') \<Rightarrow> (None, s'))"
| "ledger_step s (GetVacant order svc) = (None, snd (GetVacantNLBAndPortForService order s svc))"
| "ledger_step s (Release svc nlb port) = (None, ReleaseNLBAndPortForService s svc nlb port)"

text \<open>
  The ledgers a sequence of operations goes through, the first one included. A panic ends
  the sequence; the ledger the panicking call leaves behind is the last one.
\<close>

fun ledger_run :: "store \<Rightarrow> ledger_op list \<Rightarrow> store list" where
  "ledger_run s [] = [s]"
| "ledger_run s (op # ops) =
     s # (case ledger_step s op of
            (Some p, s') \<Rightarrow> [s']
          | (None, s') \<Rightarrow> ledger_run s' ops)"

text \<open>
  A service identity holds a pair when the pair's entry names it, or when its allocation
  record is for that pair.
\<close>

definition holds :: "store \<Rightarrow> string \<Rightarrow> string \<Rightarrow> int \<Rightarrow> bool" where
  "holds s svc nlb port \<longleftrightarrow>
     lookup2 (NlbAllocationMap s) nlb port = Some svc \<or>
     (case ServiceAllocationMap s svc of
        None \<Rightarrow> False
      | Some a \<Rightarrow> NLB a = nlb \<and> Port a = port)"

section \<open>The provider gateway (package aws)\<close>

text \<open>
  The two operations of the load-balancer SDK that deletion uses. Each call runs in the
  provider's state \<open>'w\<close>, may change it, and returns an error or nil.
\<close>

record 'w ELBV2 =
  DeleteListener :: "string \<Rightarrow> 'w \<Rightarrow> error option \<times> 'w"
  DeleteTargetGroup :: "string \<Rightarrow> 'w \<Rightarrow> error option \<times> 'w"

definition client_DeleteListenerAndTargetArn ::
  "'w ELBV2 \<Rightarrow> string \<Rightarrow> string \<Rightarrow> 'w \<Rightarrow> error option \<times> 'w" where
  "client_DeleteListenerAndTargetArn Elb listenerArn targetArn w =
     (case DeleteListener Elb listenerArn w of
        (Some err, w1) \<Rightarrow> (Some err, w1)
      | (None, w1) \<Rightarrow>
          (case DeleteTargetGroup Elb targetArn w1 of
             (Some err, w2) \<Rightarrow> (Some err, w2)
           | (None, w2) \<Rightarrow> (None, w2)))"

text \<open>The interface \<open>aws.Client\<close> that the reconciler calls.\<close>

record 'w aws_Client =
  CreateNLBListenerForPort ::
    "string \<Rightarrow> int \<Rightarrow> int \<Rightarrow> string \<Rightarrow> 'w \<Rightarrow> (error + string \<times> string) \<times> 'w"
  CheckListener ::
    "string \<Rightarrow> string \<Rightarrow> string \<Rightarrow> int \<Rightarrow> int \<Rightarrow> 'w \<Rightarrow> error option \<times> 'w"
  DeleteListenerAndTargetArn :: "string \<Rightarrow> string \<Rightarrow> 'w \<Rightarrow> error option \<times> 'w"

section \<open>The reconciler (package controllers)\<close>

subsection \<open>strconv\<close>

definition is_digit :: "char \<Rightarrow> bool" where
  "is_digit c \<longleftrightarrow> 48 \<le> (of_char c :: nat) \<and> (of_char c :: nat) \<le> 57"

definition digit_val :: "char \<Rightarrow> int" where
  "digit_val c = int (of_char c) - 48"

text \<open>
  \<open>strconv.Atoi\<close> for a 64-bit \<open>int\<close>: an optional sign, then one or more decimal digits,
  the value within the range of \<open>int\<close>. \<open>None\<close> is the \<open>*NumError\<close> (syntax or range) of
  any other string; the reconciler only tests it against nil.
\<close>

definition Atoi :: "string \<Rightarrow> int option" where
  "Atoi s =
     (let (neg, ds) =
            (case s of
               [] \<Rightarrow> (False, [])
             | c # cs \<Rightarrow>
                 if c = CHR ''-'' then (True, cs)
                 else if c = CHR ''+'' then (False, cs)
                 else (False, s))
      in if ds = [] \<or> \<not> list_all is_digit ds then None
         else
           let n = foldl (\<lambda>acc c. acc * 10 + digit_val c) 0 ds in
           if neg then (if n > 2 ^ 63 then None else Some (- n))
           else (if n \<ge> 2 ^ 63 then None else Some n))"

fun Itoa_nat :: "nat \<Rightarrow> string" where
  "Itoa_nat n =
     (if n < 10 then [char_of (48 + n)]
      else Itoa_nat (n div 10) @ [char_of (48 + n mod 10)])"

declare Itoa_nat.simps [simp del]

definition Itoa :: "int \<Rightarrow> string" where
  "Itoa i = (if i < 0 then CHR ''-'' # Itoa_nat (nat (- i)) else Itoa_nat (nat i))"

subsection \<open>The cluster's service record and the clients\<close>

text \<open>
  The part of \<open>corev1.Service\<close> the reconciler reads: \<open>Spec.Type\<close>, the \<open>NodePort\<close> of each
  entry of \<open>Spec.Ports\<close>, and the annotations. Reading a missing annotation (or a nil
  annotation map) yields the empty string.
\<close>

record Service =
  Spec_Type :: string
  Spec_Ports :: "int list"
  Annotations :: "string \<rightharpoonup> string"

definition annotation :: "Service \<Rightarrow> string \<Rightarrow> string" where
  "annotation svc key = (case Annotations svc key of None \<Rightarrow> [] | Some v \<Rightarrow> v)"

definition serviceAnnotation :: string where
  "serviceAnnotation = ''github.com/chinmayrelkar/service''"

definition nlbAnnotationNLBHost :: string where
  "nlbAnnotationNLBHost = ''service-nlb-host''"

definition nlbAnnotationNLBName :: string where
  "nlbAnnotationNLBName = ''service-nlb-name''"

definition nlbAnnotationPort :: string where
  "nlbAnnotationPort = ''service-nlb-port''"

definition nlbAnnotationListener :: string where
  "nlbAnnotationListener = ''service-nlb-listener''"

definition nlbAnnotationTarget :: string where
  "nlbAnnotationTarget = ''service-nlb-target''"

text \<open>The two operations of the cluster client (\<open>client.Client\<close>) that the reconciler uses.\<close>

record 'w client_Client =
  Get :: "string \<Rightarrow> 'w \<Rightarrow> (error + Service) \<times> 'w"
  Update :: "Service \<Rightarrow> 'w \<Rightarrow> error option \<times> 'w"

text \<open>
  \<open>ServiceReconciler\<close>; its \<open>Store\<close> is the ledger, passed and returned explicitly.
\<close>

record 'w ServiceReconciler =
  Client :: "'w client_Client"
  AwsClient :: "'w aws_Client"

record Result =
  Requeue :: bool

text \<open>
  The calls a pass makes on the cluster and on the provider, each with its arguments and
  what it returned, in the order made.
\<close>

datatype call =
    CallGet string "error + Service"
  | CallUpdate Service "error option"
  | CallCreateNLBListenerForPort string int int string "error + string \<times> string"
  | CallCheckListener string string string int int "error option"
  | CallDeleteListenerAndTargetArn string string "error option"

text \<open>
  What a pass leaves: its return value (or panic), the ledger, the state of the world
  outside, and the calls made.
\<close>

record 'w pass =
  outcome :: "(Result \<times> error option) exec"
  ledger :: store
  world :: 'w
  calls :: "call list"

definition after_calls :: "call list \<Rightarrow> 'w pass \<Rightarrow> 'w pass" where
  "after_calls cs p = p\<lparr>calls := cs @ calls p\<rparr>"

definition checkAllocationValidity ::
  "'w ServiceReconciler \<Rightarrow> store \<Rightarrow> 'w \<Rightarrow> string \<Rightarrow> string \<Rightarrow> string \<Rightarrow> string \<Rightarrow> int \<Rightarrow> int \<Rightarrow>
   error option exec \<times> store \<times> 'w \<times> call list" where
  "checkAllocationValidity r s w serviceName svcAllocatedListenerArn svcAllocatedTargetArn
       svcAllocatedNLB svcAllocatedPort svcAllocatedNodePort =
     (case CheckListener (AwsClient r) svcAllocatedListenerArn svcAllocatedTargetArn
             svcAllocatedNLB svcAllocatedPort svcAllocatedNodePort w of
        (Some err, w1) \<Rightarrow>
          (Returns (Some err), s, w1,
           [CallCheckListener svcAllocatedListenerArn svcAllocatedTargetArn svcAllocatedNLB
              svcAllocatedPort svcAllocatedNodePort (Some err)])
      | (None, w1) \<Rightarrow>
          (case AssignNLBAndPortToServiceInNamespace s svcAllocatedNLB svcAllocatedPort
                  serviceName svcAllocatedListenerArn svcAllocatedTargetArn of
             (res, s1) \<Rightarrow>
               (res, s1, w1,
                [CallCheckListener svcAllocatedListenerArn svcAllocatedTargetArn svcAllocatedNLB
                   svcAllocatedPort svcAllocatedNodePort None])))"

text \<open>
  \<open>Reconcile\<close> from "If the label should be set but is not, set it" to its end: the
  allocation of a fresh pair.
\<close>

definition Reconcile_allocate ::
  "'w ServiceReconciler \<Rightarrow> string list \<Rightarrow> string \<Rightarrow> Service \<Rightarrow> store \<Rightarrow> 'w \<Rightarrow> 'w pass" where
  "Reconcile_allocate r order serviceName svc s w =
     (case GetVacantNLBAndPortForService order s serviceName of
        (Inl err, s1) \<Rightarrow>
          \<lparr>outcome = Returns (\<lparr>Requeue = True\<rparr>, Some err), ledger = s1, world = w, calls = []\<rparr>
      | (Inr (nlb, nlbPort), s1) \<Rightarrow>
          (case Spec_Ports svc of
             [] \<Rightarrow> \<lparr>outcome = Panics IndexOutOfRange, ledger = s1, world = w, calls = []\<rparr>
           | nodePort # _ \<Rightarrow>
               (case CreateNLBListenerForPort (AwsClient r) nlb nlbPort nodePort serviceName w of
                  (Inl err, w1) \<Rightarrow>
                    \<lparr>outcome = Returns (\<lparr>Requeue = True\<rparr>, Some err),
                     ledger = ReleaseNLBAndPortForService s1 serviceName nlb nlbPort,
                     world = w1,
                     calls = [CallCreateNLBListenerForPort nlb nlbPort nodePort serviceName (Inl err)]\<rparr>
                | (Inr (listenerArn, targetArn), w1) \<Rightarrow>
                    (let created = CallCreateNLBListenerForPort nlb nlbPort nodePort serviceName
                                     (Inr (listenerArn, targetArn)) in
                     case AssignNLBAndPortToServiceInNamespace s1 nlb nlbPort serviceName
                            listenerArn targetArn of
                       (Panics p, s2) \<Rightarrow>
                         \<lparr>outcome = Panics p, ledger = s2, world = w1, calls = [created]\<rparr>
                     | (Returns (Some err), s2) \<Rightarrow>
                         (let s3 = ReleaseNLBAndPortForService s2 serviceName nlb nlbPort in
                          case DeleteListenerAndTargetArn (AwsClient r) listenerArn targetArn w1 of
                            (Some err2, w2) \<Rightarrow>
                              \<lparr>outcome = Returns (\<lparr>Requeue = False\<rparr>, Some err2), ledger = s3,
                               world = w2,
                               calls = [created,
                                 CallDeleteListenerAndTargetArn listenerArn targetArn (Some err2)]\<rparr>
                          | (None, w2) \<Rightarrow>
                              \<lparr>outcome = Returns (\<lparr>Requeue = True\<rparr>, Some err), ledger = s3,
                               world = w2,
                               calls = [created,
                                 CallDeleteListenerAndTargetArn listenerArn targetArn None]\<rparr>)
                     | (Returns None, s2) \<Rightarrow>
                         (let svc' = svc\<lparr>Annotations := (Annotations svc)
                                (nlbAnnotationNLBName \<mapsto> nlb,
                                 nlbAnnotationNLBHost \<mapsto> GetNLBHost s2 nlb,
                                 nlbAnnotationPort \<mapsto> Itoa nlbPort,
                                 nlbAnnotationListener \<mapsto> listenerArn,
                                 nlbAnnotationTarget \<mapsto> targetArn)\<rparr> in
                          case Update (Client r) svc' w1 of
                            (Some err, w2) \<Rightarrow>
                              (let s3 = ReleaseNLBAndPortForService s2 serviceName [] 0 in
                               case DeleteListenerAndTargetArn (AwsClient r) listenerArn targetArn w2 of
                                 (Some err2, w3) \<Rightarrow>
                                   \<lparr>outcome = Returns (\<lparr>Requeue = False\<rparr>, Some err2),
                                    ledger = s3, world = w3,
                                    calls = [created, CallUpdate svc' (Some err),
                                      CallDeleteListenerAndTargetArn listenerArn targetArn (Some err2)]\<rparr>
                               | (None, w3) \<Rightarrow>
                                   \<lparr>outcome =
                                      (if IsNotFound err then Returns (\<lparr>Requeue = False\<rparr>, None)
                                       else Returns (\<lparr>Requeue = True\<rparr>, None)),
                                    ledger = s3, world = w3,
                                    calls = [created, CallUpdate svc' (Some err),
                                      CallDeleteListenerAndTargetArn listenerArn targetArn None]\<rparr>)
                          | (None, w2) \<Rightarrow>
                              \<lparr>outcome = Returns (\<lparr>Requeue = False\<rparr>, None), ledger = s2,
                               world = w2, calls = [created, CallUpdate svc' None]\<rparr>)))))"

text \<open>
  \<open>Reconcile\<close> for the request of the service \<open>serviceName\<close>
  (\<open>req.NamespacedName.String()\<close>); \<open>order\<close> is the order in which this pass would range
  over the load balancers. Log lines are not modelled.
\<close>

definition Reconcile ::
  "'w ServiceReconciler \<Rightarrow> string list \<Rightarrow> string \<Rightarrow> store \<Rightarrow> 'w \<Rightarrow> 'w pass" where
  "Reconcile r order serviceName s w =
     (case Get (Client r) serviceName w of
        (Inl err, w1) \<Rightarrow>
          if IsNotFound err
          then
            (case GetAllocationForSVC s serviceName of
               None \<Rightarrow>
                 \<lparr>outcome = Returns (\<lparr>Requeue = False\<rparr>, None), ledger = s, world = w1,
                  calls = [CallGet serviceName (Inl err)]\<rparr>
             | Some allocation \<Rightarrow>
                 (case DeleteListenerAndTargetArn (AwsClient r) (ListenerArn allocation)
                         (TargetArn allocation) w1 of
                    (Some err', w2) \<Rightarrow>
                      \<lparr>outcome = Returns (\<lparr>Requeue = True\<rparr>, Some err'), ledger = s, world = w2,
                       calls = [CallGet serviceName (Inl err),
                         CallDeleteListenerAndTargetArn (ListenerArn allocation)
                           (TargetArn allocation) (Some err')]\<rparr>
                  | (None, w2) \<Rightarrow>
                      \<lparr>outcome = Returns (\<lparr>Requeue = False\<rparr>, None),
                       ledger = ReleaseNLBAndPortForService s serviceName (NLB allocation)
                                  (Port allocation),
                       world = w2,
                       calls = [CallGet serviceName (Inl err),
                         CallDeleteListenerAndTargetArn (ListenerArn allocation)
                           (TargetArn allocation) None]\<rparr>))
          else
            \<lparr>outcome = Returns (\<lparr>Requeue = True\<rparr>, Some err), ledger = s, world = w1,
             calls = [CallGet serviceName (Inl err)]\<rparr>
      | (Inr svc, w1) \<Rightarrow>
          (let got = CallGet serviceName (Inr svc);
               svcIsOfTypeNodePort = (Spec_Type svc = ''NodePort'')
           in
           if \<not> svcIsOfTypeNodePort
           then \<lparr>outcome = Returns (\<lparr>Requeue = False\<rparr>, None), ledger = s, world = w1,
                 calls = [got]\<rparr>
           else
             let isNodePortService = (annotation svc serviceAnnotation = ''true'');
                 isNLBPortAllocated = (annotation svc nlbAnnotationNLBName \<noteq> [])
             in
             \<comment> \<open>\<open>if !isNodePortService\<close> writes a log line and goes on\<close>
             if isNLBPortAllocated
             then
               (case Spec_Ports svc of
                  [] \<Rightarrow> \<lparr>outcome = Panics IndexOutOfRange, ledger = s, world = w1, calls = [got]\<rparr>
                | svcAllocatedNodePort # _ \<Rightarrow>
                    (case Atoi (annotation svc nlbAnnotationPort) of
                       None \<Rightarrow> after_calls [got] (Reconcile_allocate r order serviceName svc s w1)
                     | Some svcAllocatedPort \<Rightarrow>
                         (case checkAllocationValidity r s w1 serviceName
                                 (annotation svc nlbAnnotationListener)
                                 (annotation svc nlbAnnotationTarget)
                                 (annotation svc nlbAnnotationNLBName)
                                 svcAllocatedPort svcAllocatedNodePort of
                            (Panics p, s1, w2, cs) \<Rightarrow>
                              \<lparr>outcome = Panics p, ledger = s1, world = w2, calls = got # cs\<rparr>
                          | (Returns (Some err), s1, w2, cs) \<Rightarrow>
                              after_calls (got # cs)
                                (Reconcile_allocate r order serviceName svc s1 w2)
                          | (Returns None, s1, w2, cs) \<Rightarrow>
                              \<lparr>outcome = Returns (\<lparr>Requeue = False\<rparr>, None), ledger = s1,
                               world = w2, calls = got # cs\<rparr>)))
             else after_calls [got] (Reconcile_allocate r order serviceName svc s w1)))"

section \<open>Notions used in the statements\<close>

text \<open>A pair of the pool that no service occupies.\<close>

definition free :: "store \<Rightarrow> string \<Rightarrow> int \<Rightarrow> bool" where
  "free s nlb port \<longleftrightarrow>
     (case NlbAllocationMap s nlb of None \<Rightarrow> False | Some ports \<Rightarrow> ports port = None)"

text \<open>
  The first free pair when the load balancers are visited in the order \<open>order\<close> and, for
  each of them, the ports 9000 to 9049 upwards.
\<close>

definition first_free :: "string list \<Rightarrow> store \<Rightarrow> string \<times> int \<Rightarrow> bool" where
  "first_free order s pair \<longleftrightarrow>
     (case pair of (nlb, port) \<Rightarrow>
        nlb \<in> set order \<and> port \<in> {9000..<9050} \<and> free s nlb port \<and>
        (\<forall>q \<in> {9000..<port}. \<not> free s nlb q) \<and>
        (\<forall>x \<in> set (takeWhile (\<lambda>x. x \<noteq> nlb) order). \<forall>q \<in> {9000..<9050}. \<not> free s x q))"

text \<open>The two indices agree: the pair of every allocation record names the record's service.\<close>

definition ledger_inv :: "store \<Rightarrow> bool" where
  "ledger_inv s \<longleftrightarrow>
     (\<forall>svc a. ServiceAllocationMap s svc = Some a \<longrightarrow>
        lookup2 (NlbAllocationMap s) (NLB a) (Port a) = Some svc)"

text \<open>Calls that only read; calls that change the provider; calls of the allocation path.\<close>

fun is_read :: "call \<Rightarrow> bool" where
  "is_read (CallGet _ _) = True"
| "is_read (CallCheckListener _ _ _ _ _ _) = True"
| "is_read _ = False"

fun provider_mutation :: "call \<Rightarrow> bool" where
  "provider_mutation (CallCreateNLBListenerForPort _ _ _ _ _) = True"
| "provider_mutation (CallDeleteListenerAndTargetArn _ _ _) = True"
| "provider_mutation _ = False"

fun allocation_call :: "call \<Rightarrow> bool" where
  "allocation_call (CallCreateNLBListenerForPort _ _ _ _ _) = True"
| "allocation_call (CallUpdate _ _) = True"
| "allocation_call _ = False"

section \<open>Example ledgers, services and collaborators\<close>

text \<open>The ledgers that \<open>New\<close> builds from \<open>NLB_LIST=lb1:h1\<close> and from \<open>NLB_LIST=lb1:h1,lb2:h2\<close>.\<close>

definition pool_lb1 :: store where
  "pool_lb1 = \<lparr>ServiceAllocationMap = Map.empty,
               NlbAllocationMap = [''lb1'' \<mapsto> Map.empty],
               NlbHosts = [''lb1'' \<mapsto> ''h1'']\<rparr>"

definition pool_lb1_lb2 :: store where
  "pool_lb1_lb2 = \<lparr>ServiceAllocationMap = Map.empty,
                   NlbAllocationMap = [''lb1'' \<mapsto> Map.empty, ''lb2'' \<mapsto> Map.empty],
                   NlbHosts = [''lb1'' \<mapsto> ''h1'', ''lb2'' \<mapsto> ''h2'']\<rparr>"

text \<open>The ledger after \<open>ns/a\<close> was given \<open>(lb1, 9000)\<close>.\<close>

definition held_by_a :: store where
  "held_by_a =
     \<lparr>ServiceAllocationMap =
        [''ns/a'' \<mapsto> \<lparr>ListenerArn = ''L1'', TargetArn = ''G1'', NLB = ''lb1'', Port = 9000,
                       ServiceNamespacedName = ''ns/a''\<rparr>],
      NlbAllocationMap = [''lb1'' \<mapsto> [9000 \<mapsto> ''ns/a'']],
      NlbHosts = [''lb1'' \<mapsto> ''h1'']\<rparr>"

text \<open>A NodePort service without the opt-in annotation, and the record an allocation writes.\<close>

definition plain_service :: Service where
  "plain_service = \<lparr>Spec_Type = ''NodePort'', Spec_Ports = [30080], Annotations = Map.empty\<rparr>"

definition plain_service_bound :: Service where
  "plain_service_bound =
     \<lparr>Spec_Type = ''NodePort'', Spec_Ports = [30080],
      Annotations = [nlbAnnotationNLBName \<mapsto> ''lb1'', nlbAnnotationNLBHost \<mapsto> ''h1'',
                     nlbAnnotationPort \<mapsto> ''9000'', nlbAnnotationListener \<mapsto> ''L1'',
                     nlbAnnotationTarget \<mapsto> ''G1'']\<rparr>"

text \<open>A NodePort service with the opt-in annotation, and the record an allocation writes.\<close>

definition optin_service :: Service where
  "optin_service = \<lparr>Spec_Type = ''NodePort'', Spec_Ports = [30080],
                    Annotations = [serviceAnnotation \<mapsto> ''true'']\<rparr>"

definition optin_service_bound :: Service where
  "optin_service_bound =
     \<lparr>Spec_Type = ''NodePort'', Spec_Ports = [30080],
      Annotations = [serviceAnnotation \<mapsto> ''true'',
                     nlbAnnotationNLBName \<mapsto> ''lb1'', nlbAnnotationNLBHost \<mapsto> ''h1'',
                     nlbAnnotationPort \<mapsto> ''9000'', nlbAnnotationListener \<mapsto> ''L1'',
                     nlbAnnotationTarget \<mapsto> ''G1'']\<rparr>"

text \<open>
  A cluster that holds at most one service record (the state of the world): \<open>Get\<close> returns
  it, \<open>Update\<close> replaces it. The second client refuses every update with \<open>err\<close>.
\<close>

definition cluster_Client :: "Service option client_Client" where
  "cluster_Client =
     \<lparr>Get = (\<lambda>name w. case w of
                None \<Rightarrow> (Inl (ApiErr True ''not found''), w)
              | Some svc \<Rightarrow> (Inr svc, w)),
      Update = (\<lambda>svc w. (None, Some svc))\<rparr>"

definition readonly_Client :: "error \<Rightarrow> Service option client_Client" where
  "readonly_Client err =
     \<lparr>Get = (\<lambda>name w. case w of
                None \<Rightarrow> (Inl (ApiErr True ''not found''), w)
              | Some svc \<Rightarrow> (Inr svc, w)),
      Update = (\<lambda>svc w. (Some err, w))\<rparr>"

text \<open>
  A provider that answers every creation with \<open>created\<close> and every deletion with
  \<open>deleted\<close>, and finds every listener valid.
\<close>

definition provider :: "error + string \<times> string \<Rightarrow> error option \<Rightarrow> 'w aws_Client" where
  "provider created deleted =
     \<lparr>CreateNLBListenerForPort = (\<lambda>nlb port nodePort svcName w. (created, w)),
      CheckListener = (\<lambda>listenerArn targetArn nlb port nodePort w. (None, w)),
      DeleteListenerAndTargetArn = (\<lambda>listenerArn targetArn w. (deleted, w))\<rparr>"

definition healthy_reconciler :: "Service option ServiceReconciler" where
  "healthy_reconciler = \<lparr>Client = cluster_Client, AwsClient = provider (Inr (''L1'', ''G1'')) None\<rparr>"

definition throttled_reconciler :: "Service option ServiceReconciler" where
  "throttled_reconciler =
     \<lparr>Client = cluster_Client,
      AwsClient = provider (Inl (AwsErr ''Throttling'' ''Rate exceeded'')) None\<rparr>"

definition leaking_reconciler :: "Service option ServiceReconciler" where
  "leaking_reconciler =
     \<lparr>Client = readonly_Client (ApiErr False ''conflict''),
      AwsClient = provider (Inr (''L1'', ''G1'')) (Some (AwsErr ''ResourceInUse'' ''in use''))\<rparr>"

text \<open>
  Two load-balancer SDKs whose state counts the calls made: one reports that the listener
  does not exist, the other deletes the listener and then fails on the target group.
\<close>

definition elb_listener_gone :: "nat ELBV2" where
  "elb_listener_gone =
     \<lparr>DeleteListener =
        (\<lambda>arn n. (Some (AwsErr ''ListenerNotFound'' ''One or more listeners not found''), Suc n)),
      DeleteTargetGroup = (\<lambda>arn n. (None, Suc n))\<rparr>"

definition elb_target_group_in_use :: "nat ELBV2" where
  "elb_target_group_in_use =
     \<lparr>DeleteListener = (\<lambda>arn n. (None, Suc n)),
      DeleteTargetGroup =
        (\<lambda>arn n. (Some (AwsErr ''ResourceInUse'' ''Target group is in use''), Suc n))\<rparr>"

section \<open>The ledger: single operations\<close>

lemma Assign_in_pool:
  assumes "NlbAllocationMap s nlb = Some ports"
  shows "AssignNLBAndPortToServiceInNamespace s nlb port svc listenerArn targetArn =
     (case ports port of
        None \<Rightarrow>
          (Returns None,
           s\<lparr>ServiceAllocationMap := (ServiceAllocationMap s)(svc \<mapsto>
                \<lparr>ListenerArn = listenerArn, TargetArn = targetArn, NLB = nlb, Port = port,
                 ServiceNamespacedName = svc\<rparr>),
             NlbAllocationMap := (NlbAllocationMap s)(nlb \<mapsto> ports(port \<mapsto> svc))\<rparr>)
      | Some owner \<Rightarrow>
          if owner = svc
          then (Returns None,
             s\<lparr>ServiceAllocationMap := (ServiceAllocationMap s)(svc \<mapsto>
                \<lparr>ListenerArn = listenerArn, TargetArn = targetArn, NLB = nlb, Port = port,
                 ServiceNamespacedName = svc\<rparr>),
               NlbAllocationMap := (NlbAllocationMap s)(nlb \<mapsto> ports(port \<mapsto> svc))\<rparr>)
          else (Returns (Some (Errorf (''port reserved for svc '' @ owner))), s))"
  using assms
  by (simp add: AssignNLBAndPortToServiceInNamespace_def lookup2_def Let_def split: option.splits)

lemma Assign_not_in_pool:
  assumes "NlbAllocationMap s nlb = None"
  shows "AssignNLBAndPortToServiceInNamespace s nlb port svc listenerArn targetArn =
     (Panics NilMapAssignment,
      s\<lparr>ServiceAllocationMap := (ServiceAllocationMap s)(svc \<mapsto>
           \<lparr>ListenerArn = listenerArn, TargetArn = targetArn, NLB = nlb, Port = port,
            ServiceNamespacedName = svc\<rparr>)\<rparr>)"
  using assms
  by (simp add: AssignNLBAndPortToServiceInNamespace_def lookup2_def Let_def)

lemma Assign_error_unchanged:
  "AssignNLBAndPortToServiceInNamespace s nlb port nm l t = (Returns (Some err), s') \<Longrightarrow> s' = s"
  by (auto simp: AssignNLBAndPortToServiceInNamespace_def Let_def split: if_splits option.splits)

text \<open>
  C5: with the load balancer in the pool, \<open>AssignNLBAndPortToServiceInNamespace\<close> succeeds
  and records the service in both indices when the pair is free or already the service's;
  when another service owns the pair it returns the error that names this owner and leaves
  the ledger, both indices, as it was.
\<close>

theorem Assign_reserve:
  assumes "NlbAllocationMap s nlb = Some ports"
  shows "(ports port = None \<or> ports port = Some svc \<longrightarrow>
            AssignNLBAndPortToServiceInNamespace s nlb port svc listenerArn targetArn =
              (Returns None,
               s\<lparr>ServiceAllocationMap := (ServiceAllocationMap s)(svc \<mapsto>
                    \<lparr>ListenerArn = listenerArn, TargetArn = targetArn, NLB = nlb, Port = port,
                     ServiceNamespacedName = svc\<rparr>),
                 NlbAllocationMap := (NlbAllocationMap s)(nlb \<mapsto> ports(port \<mapsto> svc))\<rparr>)) \<and>
         (\<forall>owner. ports port = Some owner \<and> owner \<noteq> svc \<longrightarrow>
            AssignNLBAndPortToServiceInNamespace s nlb port svc listenerArn targetArn =
              (Returns (Some (Errorf (''port reserved for svc '' @ owner))), s))"
  using Assign_in_pool[OF assms, of port svc listenerArn targetArn]
  by (auto split: option.splits)

text \<open>
  C5, at the ledger where \<open>ns/a\<close> holds \<open>(lb1, 9000)\<close>: \<open>ns/b\<close> is refused that pair with
  the error naming \<open>ns/a\<close>, \<open>ns/a\<close> may reserve it again, and \<open>ns/b\<close> may reserve the free
  pair \<open>(lb1, 9001)\<close>.
\<close>

theorem Assign_reserve_witness:
  "NlbAllocationMap held_by_a ''lb1'' = Some [9000 \<mapsto> ''ns/a''] \<and>
   AssignNLBAndPortToServiceInNamespace held_by_a ''lb1'' 9000 ''ns/b'' ''L2'' ''G2'' =
     (Returns (Some (Errorf ''port reserved for svc ns/a'')), held_by_a) \<and>
   fst (AssignNLBAndPortToServiceInNamespace held_by_a ''lb1'' 9000 ''ns/a'' ''L1'' ''G1'') =
     Returns None \<and>
   fst (AssignNLBAndPortToServiceInNamespace held_by_a ''lb1'' 9001 ''ns/b'' ''L2'' ''G2'') =
     Returns None"
proof -
  have h: "NlbAllocationMap held_by_a ''lb1'' = Some [9000 \<mapsto> ''ns/a'']"
    by (simp add: held_by_a_def)
  from Assign_reserve[OF h, of 9000 "''ns/b''" "''L2''" "''G2''"]
       Assign_reserve[OF h, of 9000 "''ns/a''" "''L1''" "''G1''"]
       Assign_reserve[OF h, of 9001 "''ns/b''" "''L2''" "''G2''"] h
  show ?thesis by simp
qed

text \<open>
  C9: for a load-balancer name that is not a key of \<open>NlbAllocationMap\<close>,
  \<open>AssignNLBAndPortToServiceInNamespace\<close> returns no error value: it panics on the
  assignment to an entry of the nil inner map. Validation hands it the name found in the
  service's annotations, so \<open>checkAllocationValidity\<close> panics in the same way once the
  listener check has passed.
\<close>

theorem Assign_panics_outside_pool:
  assumes "nlb \<notin> dom (NlbAllocationMap s)"
  shows "fst (AssignNLBAndPortToServiceInNamespace s nlb port svc listenerArn targetArn) =
           Panics NilMapAssignment \<and>
         (fst (CheckListener (AwsClient r) listenerArn targetArn nlb port nodePort w) = None \<longrightarrow>
            fst (checkAllocationValidity r s w svc listenerArn targetArn nlb port nodePort) =
              Panics NilMapAssignment)"
proof -
  from assms have "NlbAllocationMap s nlb = None" by auto
  then show ?thesis
    by (auto simp: Assign_not_in_pool checkAllocationValidity_def split: prod.splits option.splits)
qed

text \<open>
  C9, at the pool \<open>lb1\<close> and the name \<open>lb9\<close>: the assignment panics, and so does the
  validation of a binding record that names \<open>lb9\<close>.
\<close>

theorem Assign_panics_outside_pool_witness:
  "''lb9'' \<notin> dom (NlbAllocationMap pool_lb1) \<and>
   fst (AssignNLBAndPortToServiceInNamespace pool_lb1 ''lb9'' 9000 ''ns/a'' ''L1'' ''G1'') =
     Panics NilMapAssignment \<and>
   fst (CheckListener (AwsClient healthy_reconciler) ''L1'' ''G1'' ''lb9'' 9000 30080 None) = None \<and>
   fst (checkAllocationValidity healthy_reconciler pool_lb1 None ''ns/a'' ''L1'' ''G1'' ''lb9'' 9000 30080) =
     Panics NilMapAssignment"
proof -
  have h: "''lb9'' \<notin> dom (NlbAllocationMap pool_lb1)" by (simp add: pool_lb1_def)
  have c: "fst (CheckListener (AwsClient healthy_reconciler) ''L1'' ''G1'' ''lb9'' 9000 30080 None) = None"
    by (simp add: healthy_reconciler_def provider_def)
  from Assign_panics_outside_pool[OF h, of 9000 "''ns/a''" "''L1''" "''G1''" healthy_reconciler 30080 None] h c
  show ?thesis by simp
qed

text \<open>
  C10: for a service identity with no allocation in the ledger, \<open>GetListenerArnFor\<close> panics
  with a nil-pointer dereference, whereas \<open>GetAllocationForSVC\<close> returns nil (no allocation)
  for the same input.
\<close>

theorem GetListenerArnFor_panics_without_allocation:
  assumes "ServiceAllocationMap s name = None"
  shows "GetListenerArnFor s name = Panics NilPointerDereference \<and> GetAllocationForSVC s name = None"
  using assms by (simp add: GetListenerArnFor_def GetAllocationForSVC_def)

text \<open>C10, at the empty ledger of the pool \<open>lb1\<close> and the service \<open>ns/a\<close>.\<close>

theorem GetListenerArnFor_panics_without_allocation_witness:
  "ServiceAllocationMap pool_lb1 ''ns/a'' = None \<and>
   GetListenerArnFor pool_lb1 ''ns/a'' = Panics NilPointerDereference \<and>
   GetAllocationForSVC pool_lb1 ''ns/a'' = None"
proof -
  have h: "ServiceAllocationMap pool_lb1 ''ns/a'' = None" by (simp add: pool_lb1_def)
  from GetListenerArnFor_panics_without_allocation[OF h] h show ?thesis by simp
qed

section \<open>The ledger: the search for a vacant pair\<close>

lemma port_loop_step:
  "port < 9050 \<Longrightarrow> ports port \<noteq> None \<Longrightarrow> port_loop ports port = port_loop ports (port + 1)"
  by (subst port_loop.simps) auto

lemma port_loop_hit:
  "port < 9050 \<Longrightarrow> ports port = None \<Longrightarrow> port_loop ports port = Some port"
  by (subst port_loop.simps) auto

lemma port_loop_end:
  "\<not> port < 9050 \<Longrightarrow> port_loop ports port = None"
  by (subst port_loop.simps) auto

lemma port_loop_Some:
  "port_loop ports p = Some q \<longleftrightarrow>
     p \<le> q \<and> q < 9050 \<and> ports q = None \<and> (\<forall>k. p \<le> k \<and> k < q \<longrightarrow> ports k \<noteq> None)"
proof (induction ports p rule: port_loop.induct)
  case (1 ports port)
  show ?case
  proof (cases "port < 9050")
    case False
    then show ?thesis by (auto simp: port_loop_end)
  next
    case inrange: True
    show ?thesis
    proof (cases "ports port = None")
      case True
      have "q = port" if "port \<le> q" "\<forall>k. port \<le> k \<and> k < q \<longrightarrow> ports k \<noteq> None"
      proof (rule ccontr)
        assume "q \<noteq> port"
        with that(1) have "port < q" by simp
        with that(2) True show False by auto
      qed
      with True inrange show ?thesis
        by (auto simp: port_loop_hit)
    next
      case occupied: False
      have split: "port \<le> k \<longleftrightarrow> k = port \<or> port + 1 \<le> k" for k :: int
        by auto
      have "(port \<le> q \<and> (\<forall>k. port \<le> k \<and> k < q \<longrightarrow> ports k \<noteq> None) \<and> ports q = None) \<longleftrightarrow>
            (port + 1 \<le> q \<and> (\<forall>k. port + 1 \<le> k \<and> k < q \<longrightarrow> ports k \<noteq> None) \<and> ports q = None)"
        using occupied by (auto simp: split)
      then show ?thesis
        using "1.IH"[OF inrange occupied] port_loop_step[of port ports] inrange occupied by auto
    qed
  qed
qed

lemma port_loop_None:
  "port_loop ports p = None \<longleftrightarrow> (\<forall>k. p \<le> k \<and> k < 9050 \<longrightarrow> ports k \<noteq> None)"
proof (induction ports p rule: port_loop.induct)
  case (1 ports port)
  show ?case
  proof (cases "port < 9050")
    case False
    then show ?thesis by (auto simp: port_loop_end)
  next
    case inrange: True
    show ?thesis
    proof (cases "ports port = None")
      case True
      with inrange show ?thesis
        by (auto simp: port_loop_hit)
    next
      case occupied: False
      have split: "port \<le> k \<longleftrightarrow> k = port \<or> port + 1 \<le> k" for k :: int
        by auto
      have "(\<forall>k. port \<le> k \<and> k < 9050 \<longrightarrow> ports k \<noteq> None) \<longleftrightarrow>
            (\<forall>k. port + 1 \<le> k \<and> k < 9050 \<longrightarrow> ports k \<noteq> None)"
        using occupied by (auto simp: split)
      then show ?thesis
        using "1.IH"[OF inrange occupied] port_loop_step[of port ports] inrange occupied by simp
    qed
  qed
qed

lemma nlb_loop_None:
  "nlb_loop m order = None \<longleftrightarrow>
     (\<forall>x \<in> set order. case m x of None \<Rightarrow> True | Some ps \<Rightarrow> port_loop ps 9000 = None)"
  by (induction order) (auto split: option.splits)

lemma nlb_loop_Some:
  "nlb_loop m order = Some (nlb, ports, port) \<Longrightarrow>
     m nlb = Some ports \<and> port_loop ports 9000 = Some port \<and>
     (\<exists>before after. order = before @ nlb # after \<and>
        (\<forall>x \<in> set before. case m x of None \<Rightarrow> True | Some ps \<Rightarrow> port_loop ps 9000 = None))"
proof (induction order)
  case Nil
  then show ?case by simp
next
  case (Cons x rest)
  show ?case
  proof (cases "case m x of None \<Rightarrow> True | Some ps \<Rightarrow> port_loop ps 9000 = None")
    case True
    then have "nlb_loop m (x # rest) = nlb_loop m rest"
      by (auto split: option.splits)
    with Cons obtain before after where
      *: "m nlb = Some ports" "port_loop ports 9000 = Some port" "rest = before @ nlb # after"
         "\<forall>y \<in> set before. case m y of None \<Rightarrow> True | Some ps \<Rightarrow> port_loop ps 9000 = None"
      by auto
    have "x # rest = (x # before) @ nlb # after" using * by simp
    moreover have "\<forall>y \<in> set (x # before). case m y of None \<Rightarrow> True | Some ps \<Rightarrow> port_loop ps 9000 = None"
      using * True by simp
    ultimately show ?thesis using * by blast
  next
    case False
    then have "m x = Some ports \<and> port_loop ports 9000 = Some port \<and> x = nlb"
      using Cons.prems by (auto split: option.splits)
    then have "m nlb = Some ports" "port_loop ports 9000 = Some port" "x # rest = [] @ nlb # rest"
      by auto
    then show ?thesis by (metis empty_iff list.set(1))
  qed
qed

lemma port_loop_None_free:
  "NlbAllocationMap s x = Some ps \<Longrightarrow>
   port_loop ps 9000 = None \<longleftrightarrow> (\<forall>q. 9000 \<le> q \<and> q < 9050 \<longrightarrow> \<not> free s x q)"
  by (simp add: port_loop_None free_def)

lemma GetVacant_cases:
  obtains (exhausted) "GetVacantNLBAndPortForService order s nm = (Inl (Errorf ''no vacancy found''), s)"
  | (vacant) nlb ports port where
      "NlbAllocationMap s nlb = Some ports" "ports port = None" "9000 \<le> port" "port < 9050"
      "GetVacantNLBAndPortForService order s nm =
         (Inr (nlb, port), s\<lparr>NlbAllocationMap := (NlbAllocationMap s)(nlb \<mapsto> ports(port \<mapsto> nm))\<rparr>)"
proof (cases "nlb_loop (NlbAllocationMap s) order")
  case None
  then show ?thesis using exhausted by (simp add: GetVacantNLBAndPortForService_def)
next
  case (Some hit)
  obtain nlb ports port where hit: "hit = (nlb, ports, port)" by (cases hit) auto
  from nlb_loop_Some[OF Some[unfolded hit]] have
    "NlbAllocationMap s nlb = Some ports" "port_loop ports 9000 = Some port" by auto
  then show ?thesis
    using vacant[of nlb ports port] Some hit
    by (simp add: GetVacantNLBAndPortForService_def port_loop_Some)
qed

text \<open>
  C6, as the code has it: the load balancers are visited in the order \<open>range\<close> happens to
  enumerate the keys of \<open>NlbAllocationMap\<close>, and for each of them the ports 9000 to 9049
  upwards. For every enumeration of the keys, \<open>GetVacantNLBAndPortForService\<close> returns the
  first free pair in that order and enters the service there, or returns the error
  \<open>no vacancy found\<close>, the ledger unchanged, when no pair of the pool is free.
\<close>

theorem GetVacant_first_free_in_order:
  assumes "range_order (NlbAllocationMap s) order"
  shows "case GetVacantNLBAndPortForService order s svc of
           (Inr (nlb, port), s') \<Rightarrow>
              first_free order s (nlb, port) \<and>
              (\<exists>ports. NlbAllocationMap s nlb = Some ports \<and>
                 s' = s\<lparr>NlbAllocationMap := (NlbAllocationMap s)(nlb \<mapsto> ports(port \<mapsto> svc))\<rparr>)
         | (Inl err, s') \<Rightarrow>
              err = Errorf ''no vacancy found'' \<and> s' = s \<and>
              (\<forall>nlb. \<forall>q \<in> {9000..<9050}. \<not> free s nlb q)"
proof (cases "nlb_loop (NlbAllocationMap s) order")
  case None
  have "\<not> free s nlb q" if "9000 \<le> q" "q < 9050" for nlb q
  proof (cases "NlbAllocationMap s nlb")
    case None
    then show ?thesis by (simp add: free_def)
  next
    case (Some ps)
    then have "nlb \<in> set order" using assms by (auto simp: range_order_def)
    with \<open>nlb_loop (NlbAllocationMap s) order = None\<close> Some
    have "port_loop ps 9000 = None" by (auto simp: nlb_loop_None)
    with Some that show ?thesis by (simp add: port_loop_None_free)
  qed
  with None show ?thesis by (simp add: GetVacantNLBAndPortForService_def)
next
  case (Some hit)
  obtain nlb ports port where hit: "hit = (nlb, ports, port)" by (cases hit) auto
  from nlb_loop_Some[OF Some[unfolded hit]] obtain before after where
    *: "NlbAllocationMap s nlb = Some ports" "port_loop ports 9000 = Some port"
       "order = before @ nlb # after"
       "\<forall>x \<in> set before. case NlbAllocationMap s x of None \<Rightarrow> True | Some ps \<Rightarrow> port_loop ps 9000 = None"
    by blast
  have "nlb \<notin> set before"
    using *(1,2,4) by force
  then have tw: "takeWhile (\<lambda>x. x \<noteq> nlb) order = before"
    unfolding *(3) by (induction before) auto
  have pre: "\<not> free s x q" if "x \<in> set before" "9000 \<le> q" "q < 9050" for x q
  proof (cases "NlbAllocationMap s x")
    case None
    then show ?thesis by (simp add: free_def)
  next
    case (Some ps)
    with *(4) that(1) have "port_loop ps 9000 = None" by force
    with Some that show ?thesis by (simp add: port_loop_None_free)
  qed
  have mem: "nlb \<in> set order" using *(3) by simp
  have "first_free order s (nlb, port)"
    using *(1,2) pre mem
    by (auto simp: first_free_def tw port_loop_Some free_def)
  with Some hit * show ?thesis by (simp add: GetVacantNLBAndPortForService_def)
qed

text \<open>
  C6, at the ledger where \<open>ns/a\<close> holds \<open>(lb1, 9000)\<close>: the only enumeration of the pool is
  \<open>lb1\<close>, and \<open>ns/b\<close> is given the first free pair \<open>(lb1, 9001)\<close>.
\<close>

theorem GetVacant_first_free_in_order_witness:
  "range_order (NlbAllocationMap held_by_a) [''lb1''] \<and>
   fst (GetVacantNLBAndPortForService [''lb1''] held_by_a ''ns/b'') = Inr (''lb1'', 9001) \<and>
   first_free [''lb1''] held_by_a (''lb1'', 9001)"
  using GetVacant_first_free_in_order[of held_by_a "[''lb1'']" "''ns/b''"]
  by (simp add: held_by_a_def range_order_def GetVacantNLBAndPortForService_def
        port_loop_hit port_loop_step)

text \<open>
  C6 as stated fails: on the empty ledger of the pool \<open>lb1, lb2\<close>, which \<open>New\<close> builds from
  \<open>NLB_LIST=lb1:h1,lb2:h2\<close>, a run that ranges over the map in the order \<open>lb1, lb2\<close>
  returns \<open>(lb1, 9000)\<close> and a run that ranges in the order \<open>lb2, lb1\<close> returns
  \<open>(lb2, 9000)\<close>.
\<close>

theorem GetVacant_depends_on_range_order:
  "New ''lb1:h1,lb2:h2'' = Returns pool_lb1_lb2 \<and>
   range_order (NlbAllocationMap pool_lb1_lb2) [''lb1'', ''lb2''] \<and>
   range_order (NlbAllocationMap pool_lb1_lb2) [''lb2'', ''lb1''] \<and>
   fst (GetVacantNLBAndPortForService [''lb1'', ''lb2''] pool_lb1_lb2 ''ns/a'') = Inr (''lb1'', 9000) \<and>
   fst (GetVacantNLBAndPortForService [''lb2'', ''lb1''] pool_lb1_lb2 ''ns/a'') = Inr (''lb2'', 9000)"
  by (auto simp: New_def loadNlbData_def pool_lb1_lb2_def range_order_def
        GetVacantNLBAndPortForService_def port_loop_hit)

section \<open>The ledger: sequences of operations\<close>

lemma ledger_inv_unique:
  assumes "ledger_inv s" "holds s svc1 nlb port" "holds s svc2 nlb port"
  shows "svc1 = svc2"
proof -
  have "lookup2 (NlbAllocationMap s) nlb port = Some svc" if "holds s svc nlb port" for svc
    using that assms(1) by (auto simp: holds_def ledger_inv_def split: option.splits)
  from this[OF assms(2)] this[OF assms(3)] show ?thesis by simp
qed

lemma ledger_inv_Assign:
  assumes "ledger_inv s"
    and "AssignNLBAndPortToServiceInNamespace s nlb port svc listenerArn targetArn = (Returns res, s')"
  shows "ledger_inv s'"
proof (cases "NlbAllocationMap s nlb")
  case None
  with assms(2) show ?thesis by (simp add: Assign_not_in_pool)
next
  case (Some ports)
  show ?thesis
  proof (cases "\<exists>owner. ports port = Some owner \<and> owner \<noteq> svc")
    case True
    with assms Some show ?thesis
      by (auto simp: Assign_in_pool)
  next
    case False
    then have s': "s' = s\<lparr>ServiceAllocationMap := (ServiceAllocationMap s)(svc \<mapsto>
                    \<lparr>ListenerArn = listenerArn, TargetArn = targetArn, NLB = nlb, Port = port,
                     ServiceNamespacedName = svc\<rparr>),
                 NlbAllocationMap := (NlbAllocationMap s)(nlb \<mapsto> ports(port \<mapsto> svc))\<rparr>"
      using assms(2) Some by (auto simp: Assign_in_pool split: option.splits if_splits)
    show ?thesis
      unfolding ledger_inv_def
    proof (intro allI impI)
      fix x a assume a: "ServiceAllocationMap s' x = Some a"
      show "lookup2 (NlbAllocationMap s') (NLB a) (Port a) = Some x"
      proof (cases "x = svc")
        case True
        with a s' show ?thesis by (auto simp: lookup2_def)
      next
        case neq: False
        with a s' have "ServiceAllocationMap s x = Some a" by simp
        with assms(1) have old: "lookup2 (NlbAllocationMap s) (NLB a) (Port a) = Some x"
          by (simp add: ledger_inv_def)
        with False Some neq have "\<not> (NLB a = nlb \<and> Port a = port)"
          by (auto simp: lookup2_def)
        with old s' Some show ?thesis by (auto simp: lookup2_def)
      qed
    qed
  qed
qed

lemma ledger_inv_GetVacant:
  assumes "ledger_inv s"
  shows "ledger_inv (snd (GetVacantNLBAndPortForService order s svc))"
proof (cases "nlb_loop (NlbAllocationMap s) order")
  case None
  with assms show ?thesis by (simp add: GetVacantNLBAndPortForService_def)
next
  case (Some hit)
  obtain nlb ports port where hit: "hit = (nlb, ports, port)" by (cases hit) auto
  from nlb_loop_Some[OF Some[unfolded hit]] have
    *: "NlbAllocationMap s nlb = Some ports" "port_loop ports 9000 = Some port" by auto
  then have free: "ports port = None" by (simp add: port_loop_Some)
  have s': "snd (GetVacantNLBAndPortForService order s svc) =
              s\<lparr>NlbAllocationMap := (NlbAllocationMap s)(nlb \<mapsto> ports(port \<mapsto> svc))\<rparr>"
    using Some hit by (simp add: GetVacantNLBAndPortForService_def)
  show ?thesis
    unfolding s' ledger_inv_def
  proof (intro allI impI)
    fix x a
    assume "ServiceAllocationMap (s\<lparr>NlbAllocationMap := (NlbAllocationMap s)(nlb \<mapsto> ports(port \<mapsto> svc))\<rparr>) x = Some a"
    then have "ServiceAllocationMap s x = Some a" by simp
    with assms have old: "lookup2 (NlbAllocationMap s) (NLB a) (Port a) = Some x"
      by (simp add: ledger_inv_def)
    with * free have "\<not> (NLB a = nlb \<and> Port a = port)"
      by (auto simp: lookup2_def)
    with old * show "lookup2 (NlbAllocationMap (s\<lparr>NlbAllocationMap := (NlbAllocationMap s)(nlb \<mapsto> ports(port \<mapsto> svc))\<rparr>)) (NLB a) (Port a) = Some x"
      by (auto simp: lookup2_def)
  qed
qed

lemma ledger_inv_Release:
  assumes "ledger_inv s"
  shows "ledger_inv (ReleaseNLBAndPortForService s svc nlb port)"
proof (cases "ServiceAllocationMap s svc")
  case None
  with assms show ?thesis by (simp add: ReleaseNLBAndPortForService_def)
next
  case (Some val)
  with assms have own: "lookup2 (NlbAllocationMap s) (NLB val) (Port val) = Some svc"
    by (simp add: ledger_inv_def)
  then obtain ports where ports: "NlbAllocationMap s (NLB val) = Some ports" "ports (Port val) = Some svc"
    by (auto simp: lookup2_def split: option.splits)
  have s': "ReleaseNLBAndPortForService s svc nlb port =
              s\<lparr>NlbAllocationMap := (NlbAllocationMap s)(NLB val \<mapsto> ports(Port val := None)),
                ServiceAllocationMap := (ServiceAllocationMap s)(svc := None)\<rparr>"
    using Some ports by (simp add: ReleaseNLBAndPortForService_def)
  show ?thesis
    unfolding s' ledger_inv_def
  proof (intro allI impI)
    fix x a
    assume a: "ServiceAllocationMap (s\<lparr>NlbAllocationMap := (NlbAllocationMap s)(NLB val \<mapsto> ports(Port val := None)),
                ServiceAllocationMap := (ServiceAllocationMap s)(svc := None)\<rparr>) x = Some a"
    then have neq: "x \<noteq> svc" and "ServiceAllocationMap s x = Some a"
      by (auto split: if_splits)
    with assms have old: "lookup2 (NlbAllocationMap s) (NLB a) (Port a) = Some x"
      by (simp add: ledger_inv_def)
    with own neq have "\<not> (NLB a = NLB val \<and> Port a = Port val)"
      by auto
    with old ports show "lookup2 (NlbAllocationMap (s\<lparr>NlbAllocationMap := (NlbAllocationMap s)(NLB val \<mapsto> ports(Port val := None)),
                ServiceAllocationMap := (ServiceAllocationMap s)(svc := None)\<rparr>)) (NLB a) (Port a) = Some x"
      by (auto simp: lookup2_def)
  qed
qed

lemma Assign_panic_unique:
  assumes "ledger_inv s"
    and "AssignNLBAndPortToServiceInNamespace s nlb port svc listenerArn targetArn = (Panics p, s')"
    and "holds s' svc1 nlb' port'" "holds s' svc2 nlb' port'"
  shows "svc1 = svc2"
proof (cases "NlbAllocationMap s nlb")
  case (Some ports)
  with assms(2) show ?thesis
    by (auto simp: Assign_in_pool split: option.splits if_splits)
next
  case None
  with assms(2) have s': "s' = s\<lparr>ServiceAllocationMap := (ServiceAllocationMap s)(svc \<mapsto>
           \<lparr>ListenerArn = listenerArn, TargetArn = targetArn, NLB = nlb, Port = port,
            ServiceNamespacedName = svc\<rparr>)\<rparr>"
    by (simp add: Assign_not_in_pool)
  have key: "lookup2 (NlbAllocationMap s) nlb' port' = Some x \<or> (x = svc \<and> nlb' = nlb)"
    if "holds s' x nlb' port'" for x
  proof (cases "x = svc")
    case True
    with that s' show ?thesis by (auto simp: holds_def)
  next
    case False
    with that s' have "holds s x nlb' port'" by (auto simp: holds_def)
    with assms(1) show ?thesis
      by (auto simp: holds_def ledger_inv_def split: option.splits)
  qed
  have out: "lookup2 (NlbAllocationMap s) nlb q = None" for q
    using None by (simp add: lookup2_def)
  from key[OF assms(3)] key[OF assms(4)] out show ?thesis by auto
qed

lemma ledger_run_unique:
  assumes "ledger_inv s" "s' \<in> set (ledger_run s ops)" "holds s' svc1 nlb port" "holds s' svc2 nlb port"
  shows "svc1 = svc2"
  using assms
proof (induction ops arbitrary: s)
  case Nil
  then show ?case using ledger_inv_unique by auto
next
  case (Cons op ops)
  show ?case
  proof (cases "s' = s")
    case True
    with Cons.prems show ?thesis using ledger_inv_unique by blast
  next
    case False
    obtain pn t where step: "ledger_step s op = (pn, t)" by (cases "ledger_step s op") auto
    show ?thesis
    proof (cases pn)
      case (Some p)
      with step False Cons.prems(2) have "s' = t" by simp
      from step Some obtain nlb' port' svc' l' t' where
        "AssignNLBAndPortToServiceInNamespace s nlb' port' svc' l' t' = (Panics p, t)"
        by (cases op) (auto split: prod.splits exec.splits)
      with Cons.prems \<open>s' = t\<close> show ?thesis using Assign_panic_unique by blast
    next
      case None
      with step False Cons.prems(2) have mem: "s' \<in> set (ledger_run t ops)" by simp
      have "ledger_inv t"
      proof (cases op)
        case (Assign nlb' port' svc' l' t')
        with step None obtain res where
          "AssignNLBAndPortToServiceInNamespace s nlb' port' svc' l' t' = (Returns res, t)"
          by (auto split: prod.splits exec.splits)
        with Cons.prems(1) show ?thesis using ledger_inv_Assign by blast
      next
        case (GetVacant order svc')
        with step have "t = snd (GetVacantNLBAndPortForService order s svc')" by simp
        with Cons.prems(1) show ?thesis by (simp add: ledger_inv_GetVacant)
      next
        case (Release svc' nlb' port')
        with step have "t = ReleaseNLBAndPortForService s svc' nlb' port'" by simp
        with Cons.prems(1) show ?thesis by (simp add: ledger_inv_Release)
      qed
      from Cons.IH[OF this mem Cons.prems(3,4)] show ?thesis .
    qed
  qed
qed

lemma New_ledger_inv:
  assumes "New env = Returns s0"
  shows "ledger_inv s0"
proof -
  from assms have "ServiceAllocationMap s0 = Map.empty"
    by (auto simp: New_def split: exec.splits prod.splits)
  then show ?thesis by (simp add: ledger_inv_def)
qed

text \<open>
  C4: start from the ledger that \<open>New\<close> builds, with nothing allocated, and run any
  sequence of \<open>AssignNLBAndPortToServiceInNamespace\<close>, \<open>GetVacantNLBAndPortForService\<close> and
  \<open>ReleaseNLBAndPortForService\<close> calls. In every ledger on the way, the one a panicking
  call leaves included, two service identities that hold the same (load-balancer, port)
  pair are the same identity.
\<close>

theorem no_two_services_hold_one_pair:
  assumes "New env = Returns s0"
    and "s \<in> set (ledger_run s0 ops)"
    and "holds s svc1 nlb port" and "holds s svc2 nlb port"
  shows "svc1 = svc2"
  using ledger_run_unique[OF New_ledger_inv[OF assms(1)] assms(2,3,4)] .

text \<open>
  C4, at the pool \<open>lb1\<close> after \<open>ns/a\<close> was assigned \<open>(lb1, 9000)\<close>: the ledger is on the
  run, and \<open>ns/a\<close> holds the pair.
\<close>

theorem no_two_services_hold_one_pair_witness:
  "New ''lb1:h1'' = Returns pool_lb1 \<and>
   snd (ledger_step pool_lb1 (Assign ''lb1'' 9000 ''ns/a'' ''L1'' ''G1''))
     \<in> set (ledger_run pool_lb1 [Assign ''lb1'' 9000 ''ns/a'' ''L1'' ''G1'']) \<and>
   holds (snd (ledger_step pool_lb1 (Assign ''lb1'' 9000 ''ns/a'' ''L1'' ''G1''))) ''ns/a'' ''lb1'' 9000 \<and>
   ''ns/a'' = ''ns/a''"
proof -
  have new: "New ''lb1:h1'' = Returns pool_lb1"
    by (simp add: New_def loadNlbData_def pool_lb1_def)
  have mem: "snd (ledger_step pool_lb1 (Assign ''lb1'' 9000 ''ns/a'' ''L1'' ''G1''))
     \<in> set (ledger_run pool_lb1 [Assign ''lb1'' 9000 ''ns/a'' ''L1'' ''G1''])"
    by (simp add: pool_lb1_def AssignNLBAndPortToServiceInNamespace_def lookup2_def)
  have holds: "holds (snd (ledger_step pool_lb1 (Assign ''lb1'' 9000 ''ns/a'' ''L1'' ''G1''))) ''ns/a'' ''lb1'' 9000"
    by (simp add: pool_lb1_def AssignNLBAndPortToServiceInNamespace_def lookup2_def holds_def)
  from no_two_services_hold_one_pair[OF new mem holds holds] new mem holds show ?thesis by simp
qed



section \<open>The provider gateway\<close>

text \<open>
  C3 as stated fails: when the provider answers \<open>DeleteListener\<close> with \<open>ListenerNotFound\<close>,
  \<open>DeleteListenerAndTargetArn\<close> returns that error, after the one call.
\<close>

theorem not_found_on_delete_is_an_error:
  "client_DeleteListenerAndTargetArn elb_listener_gone ''L1'' ''G1'' 0 =
     (Some (AwsErr ''ListenerNotFound'' ''One or more listeners not found''), 1)"
  by (simp add: client_DeleteListenerAndTargetArn_def elb_listener_gone_def)

text \<open>
  C3, as the code has it: \<open>DeleteListenerAndTargetArn\<close> returns success exactly when both
  \<open>DeleteListener\<close> and \<open>DeleteTargetGroup\<close> succeed. An error of \<open>DeleteListener\<close>, of
  whatever kind, is returned as it is and \<open>DeleteTargetGroup\<close> is not called; an error of
  \<open>DeleteTargetGroup\<close> is returned as it is.
\<close>

theorem client_DeleteListenerAndTargetArn_result:
  "(fst (client_DeleteListenerAndTargetArn Elb listenerArn targetArn w) = None \<longleftrightarrow>
      fst (DeleteListener Elb listenerArn w) = None \<and>
      fst (DeleteTargetGroup Elb targetArn (snd (DeleteListener Elb listenerArn w))) = None) \<and>
   (\<forall>err. fst (DeleteListener Elb listenerArn w) = Some err \<longrightarrow>
      client_DeleteListenerAndTargetArn Elb listenerArn targetArn w =
        (Some err, snd (DeleteListener Elb listenerArn w))) \<and>
   (\<forall>err. fst (DeleteListener Elb listenerArn w) = None \<and>
      fst (DeleteTargetGroup Elb targetArn (snd (DeleteListener Elb listenerArn w))) = Some err \<longrightarrow>
      client_DeleteListenerAndTargetArn Elb listenerArn targetArn w =
        (Some err, snd (DeleteTargetGroup Elb targetArn (snd (DeleteListener Elb listenerArn w)))))"
  by (auto simp: client_DeleteListenerAndTargetArn_def split: prod.splits option.splits)

text \<open>
  C3, at a provider that deletes the listener and then finds the target group in use (two
  calls, the second error returned), and at the provider that reports the listener missing.
\<close>

theorem client_DeleteListenerAndTargetArn_result_witness:
  "fst (DeleteListener elb_target_group_in_use ''L1'' 0) = None \<and>
   fst (DeleteTargetGroup elb_target_group_in_use ''G1''
          (snd (DeleteListener elb_target_group_in_use ''L1'' 0))) =
     Some (AwsErr ''ResourceInUse'' ''Target group is in use'') \<and>
   client_DeleteListenerAndTargetArn elb_target_group_in_use ''L1'' ''G1'' 0 =
     (Some (AwsErr ''ResourceInUse'' ''Target group is in use''), 2) \<and>
   fst (DeleteListener elb_listener_gone ''L1'' 0) =
     Some (AwsErr ''ListenerNotFound'' ''One or more listeners not found'') \<and>
   fst (client_DeleteListenerAndTargetArn elb_listener_gone ''L1'' ''G1'' 0) \<noteq> None"
  using client_DeleteListenerAndTargetArn_result[of elb_target_group_in_use "''L1''" "''G1''" 0]
    client_DeleteListenerAndTargetArn_result[of elb_listener_gone "''L1''" "''G1''" 0]
  by (simp add: elb_target_group_in_use_def elb_listener_gone_def)

section \<open>The reconciler\<close>

subsection \<open>Port numbers written and read back\<close>






lemma Itoa_9000: "Itoa 9000 = ''9000''"
  by (simp add: Itoa_def Itoa_nat.simps char_of_def bit_Suc_0_iff)

subsection \<open>The allocation path\<close>

lemma Assign_after_GetVacant:
  assumes "NlbAllocationMap s nlb = Some ports"
  shows "AssignNLBAndPortToServiceInNamespace
           (s\<lparr>NlbAllocationMap := (NlbAllocationMap s)(nlb \<mapsto> ports(port \<mapsto> nm))\<rparr>)
           nlb port nm listenerArn targetArn =
         (Returns None,
          s\<lparr>ServiceAllocationMap := (ServiceAllocationMap s)(nm \<mapsto>
               \<lparr>ListenerArn = listenerArn, TargetArn = targetArn, NLB = nlb, Port = port,
                ServiceNamespacedName = nm\<rparr>),
            NlbAllocationMap := (NlbAllocationMap s)(nlb \<mapsto> ports(port \<mapsto> nm))\<rparr>)"
  by (simp add: Assign_in_pool[of _ nlb "ports(port \<mapsto> nm)"])

lemma Release_after_Assign:
  assumes "NlbAllocationMap s nlb = Some ports" "ports port = None"
  shows "ReleaseNLBAndPortForService
          (s\<lparr>ServiceAllocationMap := (ServiceAllocationMap s)(nm \<mapsto>
               \<lparr>ListenerArn = listenerArn, TargetArn = targetArn, NLB = nlb, Port = port,
                ServiceNamespacedName = nm\<rparr>),
            NlbAllocationMap := (NlbAllocationMap s)(nlb \<mapsto> ports(port \<mapsto> nm))\<rparr>) nm x y =
         s\<lparr>ServiceAllocationMap := (ServiceAllocationMap s)(nm := None)\<rparr>"
proof -
  have "(ports(port \<mapsto> nm))(port := None) = ports" using assms(2) by auto
  moreover have "(NlbAllocationMap s)(nlb \<mapsto> ports) = NlbAllocationMap s" using assms(1) by auto
  ultimately show ?thesis by (simp add: ReleaseNLBAndPortForService_def)
qed

lemma allocate_update_failed:
  assumes upd: "CallUpdate svc' (Some err) \<in> set (calls (Reconcile_allocate r order nm svc s w))"
    and cre: "CallCreateNLBListenerForPort nlb port nodePort nm' (Inr (listenerArn, targetArn))
                \<in> set (calls (Reconcile_allocate r order nm svc s w))"
  shows "lookup2 (NlbAllocationMap (ledger (Reconcile_allocate r order nm svc s w))) nlb port = None \<and>
         ServiceAllocationMap (ledger (Reconcile_allocate r order nm svc s w)) nm = None \<and>
         (\<exists>derr. calls (Reconcile_allocate r order nm svc s w) =
                    [CallCreateNLBListenerForPort nlb port nodePort nm' (Inr (listenerArn, targetArn)),
                     CallUpdate svc' (Some err),
                     CallDeleteListenerAndTargetArn listenerArn targetArn derr] \<and>
                 (\<forall>err2. derr = Some err2 \<longrightarrow>
                    outcome (Reconcile_allocate r order nm svc s w) =
                      Returns (\<lparr>Requeue = False\<rparr>, Some err2)))"
proof (rule GetVacant_cases[where order = order and s = s and nm = nm], goal_cases)
  case 1
  with upd show ?thesis by (simp add: Reconcile_allocate_def)
next
  case vacant: (2 nlb0 ports port0)
  note A = Assign_after_GetVacant[OF vacant(1), of port0 nm]
  note R = Release_after_Assign[OF vacant(1,2), of nm]
  have free: "lookup2 (NlbAllocationMap s) nlb0 port0 = None"
    using vacant by (simp add: lookup2_def)
  show ?thesis
    using upd cre free
    by (auto simp: Reconcile_allocate_def vacant(5) A R Let_def
             split: list.splits prod.splits sum.splits option.splits)
qed


lemma is_read_not_mutation: "is_read c \<Longrightarrow> \<not> provider_mutation c \<and> \<not> allocation_call c"
  by (cases c) auto

lemma checkAllocationValidity_calls:
  "\<exists>res. snd (snd (snd (checkAllocationValidity r s w nm l t nlb port np))) =
     [CallCheckListener l t nlb port np res]"
  by (auto simp: checkAllocationValidity_def split: prod.splits option.splits)

lemma checkAllocationValidity_error:
  "checkAllocationValidity r s w nm l t nlb port np = (Returns (Some err), s', w', cs) \<Longrightarrow> s' = s"
  by (auto simp: checkAllocationValidity_def split: prod.splits option.splits
           dest: Assign_error_unchanged)

lemma Reconcile_via_allocate:
  obtains (other) "\<forall>c \<in> set (calls (Reconcile r order nm s w)). \<not> allocation_call c"
  | (allocate) pre svc w1 where
      "Reconcile r order nm s w = after_calls pre (Reconcile_allocate r order nm svc s w1)"
      "\<forall>c \<in> set pre. is_read c" "Spec_Type svc = ''NodePort''"
proof -
  obtain res w1 where get: "Get (Client r) nm w = (res, w1)"
    by (cases "Get (Client r) nm w") auto
  show ?thesis
  proof (cases res)
    case (Inl err)
    with get have "\<forall>c \<in> set (calls (Reconcile r order nm s w)). \<not> allocation_call c"
      by (auto simp: Reconcile_def split: option.splits prod.splits)
    then show ?thesis by (rule other)
  next
    case (Inr svc)
    show ?thesis
    proof (cases "Spec_Type svc = ''NodePort''")
      case False
      with get Inr have "\<forall>c \<in> set (calls (Reconcile r order nm s w)). \<not> allocation_call c"
        by (simp add: Reconcile_def)
      then show ?thesis by (rule other)
    next
      case np: True
      show ?thesis
      proof (cases "annotation svc nlbAnnotationNLBName \<noteq> []")
        case False
        with get Inr np have
          "Reconcile r order nm s w =
             after_calls [CallGet nm (Inr svc)] (Reconcile_allocate r order nm svc s w1)"
          by (simp add: Reconcile_def)
        from allocate[OF this _ np] show ?thesis by simp
      next
        case bound: True
        show ?thesis
        proof (cases "Spec_Ports svc")
          case Nil
          with get Inr np bound have
            "\<forall>c \<in> set (calls (Reconcile r order nm s w)). \<not> allocation_call c"
            by (simp add: Reconcile_def)
          then show ?thesis by (rule other)
        next
          case (Cons nodePort rest)
          show ?thesis
          proof (cases "Atoi (annotation svc nlbAnnotationPort)")
            case None
            with get Inr np bound Cons have
              "Reconcile r order nm s w =
                 after_calls [CallGet nm (Inr svc)] (Reconcile_allocate r order nm svc s w1)"
              by (simp add: Reconcile_def)
            from allocate[OF this _ np] show ?thesis by simp
          next
            case (Some port)
            obtain vres s1 w2 cs where check:
              "checkAllocationValidity r s w1 nm (annotation svc nlbAnnotationListener)
                 (annotation svc nlbAnnotationTarget) (annotation svc nlbAnnotationNLBName)
                 port nodePort = (vres, s1, w2, cs)"
              using prod_cases4 by blast
            with checkAllocationValidity_calls[of r s w1 nm "annotation svc nlbAnnotationListener"
                "annotation svc nlbAnnotationTarget" "annotation svc nlbAnnotationNLBName" port nodePort]
            have cs: "\<forall>c \<in> set cs. is_read c" by auto
            show ?thesis
            proof (cases "\<exists>err. vres = Returns (Some err)")
              case True
              with check have "s1 = s" by (auto dest: checkAllocationValidity_error)
              with True get Inr np bound Cons Some check have
                "Reconcile r order nm s w =
                   after_calls (CallGet nm (Inr svc) # cs) (Reconcile_allocate r order nm svc s w2)"
                by (auto simp: Reconcile_def)
              from allocate[OF this _ np] cs show ?thesis by simp
            next
              case False
              with get Inr np bound Cons Some check cs have
                "\<forall>c \<in> set (calls (Reconcile r order nm s w)). \<not> allocation_call c"
                by (cases vres) (auto simp: Reconcile_def is_read_not_mutation split: option.splits)
              then show ?thesis by (rule other)
            qed
          qed
        qed
      qed
    qed
  qed
qed

text \<open>
  C7: in a pass where \<open>CreateNLBListenerForPort\<close> returned the handles of a new listener
  and target group for the pair \<open>(nlb, port)\<close> and the \<open>Update\<close> of the service record
  failed, the pair is free in the ledger afterwards and the service has no allocation
  record; the provider was changed by exactly two calls, the creation and one
  \<open>DeleteListenerAndTargetArn\<close> on the handles just created; and if this deletion failed,
  the pass returns \<open>Result{Requeue: false}\<close> together with the deletion's error.
\<close>

theorem Reconcile_rollback:
  assumes cre: "CallCreateNLBListenerForPort nlb port nodePort nm' (Inr (listenerArn, targetArn))
                  \<in> set (calls (Reconcile r order nm s w))"
    and upd: "CallUpdate svc' (Some err) \<in> set (calls (Reconcile r order nm s w))"
  shows "lookup2 (NlbAllocationMap (ledger (Reconcile r order nm s w))) nlb port = None \<and>
         ServiceAllocationMap (ledger (Reconcile r order nm s w)) nm = None \<and>
         (\<exists>derr. filter provider_mutation (calls (Reconcile r order nm s w)) =
                    [CallCreateNLBListenerForPort nlb port nodePort nm' (Inr (listenerArn, targetArn)),
                     CallDeleteListenerAndTargetArn listenerArn targetArn derr] \<and>
                 (\<forall>err2. derr = Some err2 \<longrightarrow>
                    outcome (Reconcile r order nm s w) = Returns (\<lparr>Requeue = False\<rparr>, Some err2)))"
proof (rule Reconcile_via_allocate[where r = r and order = order and nm = nm and s = s and w = w],
       goal_cases)
  case 1
  with cre show ?case by force
next
  case (2 pre svc w1)
  let ?A = "Reconcile_allocate r order nm svc s w1"
  have nopre: "c \<notin> set pre" if "\<not> is_read c" for c using 2(2) that by auto
  have calls: "calls (Reconcile r order nm s w) = pre @ calls ?A"
    and same: "ledger (Reconcile r order nm s w) = ledger ?A"
              "outcome (Reconcile r order nm s w) = outcome ?A"
    using 2(1) by (simp_all add: after_calls_def)
  from cre upd have "CallCreateNLBListenerForPort nlb port nodePort nm' (Inr (listenerArn, targetArn))
                  \<in> set (calls ?A)" "CallUpdate svc' (Some err) \<in> set (calls ?A)"
    unfolding calls using nopre by auto
  from allocate_update_failed[OF this(2) this(1)] obtain derr where
    d: "lookup2 (NlbAllocationMap (ledger ?A)) nlb port = None"
       "ServiceAllocationMap (ledger ?A) nm = None"
       "calls ?A = [CallCreateNLBListenerForPort nlb port nodePort nm' (Inr (listenerArn, targetArn)),
                     CallUpdate svc' (Some err),
                     CallDeleteListenerAndTargetArn listenerArn targetArn derr]"
       "\<forall>err2. derr = Some err2 \<longrightarrow> outcome ?A = Returns (\<lparr>Requeue = False\<rparr>, Some err2)"
    by blast
  have "filter provider_mutation pre = []"
    using 2(2) by (auto simp: filter_empty_conv is_read_not_mutation)
  with d show ?case unfolding calls same by simp
qed


text \<open>
  C7, at the pool \<open>lb1\<close> with a cluster that refuses updates and a provider that creates
  \<open>L1\<close>, \<open>G1\<close> and then fails to delete them.
\<close>

theorem Reconcile_rollback_witness:
  "CallCreateNLBListenerForPort ''lb1'' 9000 30080 ''ns/a'' (Inr (''L1'', ''G1''))
     \<in> set (calls (Reconcile leaking_reconciler [''lb1''] ''ns/a'' pool_lb1 (Some optin_service))) \<and>
   CallUpdate optin_service_bound (Some (ApiErr False ''conflict''))
     \<in> set (calls (Reconcile leaking_reconciler [''lb1''] ''ns/a'' pool_lb1 (Some optin_service))) \<and>
   lookup2 (NlbAllocationMap (ledger (Reconcile leaking_reconciler [''lb1''] ''ns/a'' pool_lb1
      (Some optin_service)))) ''lb1'' 9000 = None \<and>
   outcome (Reconcile leaking_reconciler [''lb1''] ''ns/a'' pool_lb1 (Some optin_service)) =
     Returns (\<lparr>Requeue = False\<rparr>, Some (AwsErr ''ResourceInUse'' ''in use''))"
proof -
  let ?P = "Reconcile leaking_reconciler [''lb1''] ''ns/a'' pool_lb1 (Some optin_service)"
  have c: "calls ?P =
     [CallGet ''ns/a'' (Inr optin_service),
      CallCreateNLBListenerForPort ''lb1'' 9000 30080 ''ns/a'' (Inr (''L1'', ''G1'')),
      CallUpdate optin_service_bound (Some (ApiErr False ''conflict'')),
      CallDeleteListenerAndTargetArn ''L1'' ''G1'' (Some (AwsErr ''ResourceInUse'' ''in use''))]"
    by (simp add: pool_lb1_def optin_service_def optin_service_bound_def plain_service_def plain_service_bound_def
          cluster_Client_def readonly_Client_def provider_def healthy_reconciler_def
          throttled_reconciler_def leaking_reconciler_def
          annotation_def serviceAnnotation_def nlbAnnotationNLBName_def nlbAnnotationNLBHost_def
          nlbAnnotationPort_def nlbAnnotationListener_def nlbAnnotationTarget_def
          Reconcile_def Reconcile_allocate_def checkAllocationValidity_def after_calls_def
          GetVacantNLBAndPortForService_def AssignNLBAndPortToServiceInNamespace_def
          ReleaseNLBAndPortForService_def GetAllocationForSVC_def GetNLBHost_def lookup2_def
          port_loop_hit port_loop_step port_loop_end Let_def Itoa_9000)
  have m1: "CallCreateNLBListenerForPort ''lb1'' 9000 30080 ''ns/a'' (Inr (''L1'', ''G1''))
     \<in> set (calls ?P)" and
    m2: "CallUpdate optin_service_bound (Some (ApiErr False ''conflict'')) \<in> set (calls ?P)"
    unfolding c by simp_all
  from Reconcile_rollback[OF m1 m2] obtain derr where
    d: "lookup2 (NlbAllocationMap (ledger ?P)) ''lb1'' 9000 = None"
       "filter provider_mutation (calls ?P) =
          [CallCreateNLBListenerForPort ''lb1'' 9000 30080 ''ns/a'' (Inr (''L1'', ''G1'')),
           CallDeleteListenerAndTargetArn ''L1'' ''G1'' derr]"
       "\<forall>err2. derr = Some err2 \<longrightarrow> outcome ?P = Returns (\<lparr>Requeue = False\<rparr>, Some err2)"
    by blast
  from d(2) have "derr = Some (AwsErr ''ResourceInUse'' ''in use'')"
    unfolding c by simp
  with d m1 m2 show ?thesis by simp
qed

subsection \<open>A second pass\<close>







subsection \<open>Two passes that leave more than they should\<close>

text \<open>
  C1 fails on the code: a NodePort service without the opt-in annotation, reconciled over
  the pool \<open>lb1\<close>. The test of the annotation writes a log line and goes on: the pass
  reserves \<open>(lb1, 9000)\<close>, has the provider create a listener and writes the binding
  annotations to the record.
\<close>

theorem Reconcile_without_optin_allocates:
  "annotation plain_service serviceAnnotation \<noteq> ''true'' \<and>
   calls (Reconcile healthy_reconciler [''lb1''] ''ns/a'' pool_lb1 (Some plain_service)) =
     [CallGet ''ns/a'' (Inr plain_service),
      CallCreateNLBListenerForPort ''lb1'' 9000 30080 ''ns/a'' (Inr (''L1'', ''G1'')),
      CallUpdate plain_service_bound None] \<and>
   lookup2 (NlbAllocationMap (ledger (Reconcile healthy_reconciler [''lb1''] ''ns/a'' pool_lb1
      (Some plain_service)))) ''lb1'' 9000 = Some ''ns/a'' \<and>
   world (Reconcile healthy_reconciler [''lb1''] ''ns/a'' pool_lb1 (Some plain_service)) =
     Some plain_service_bound"
  by (simp add: pool_lb1_def optin_service_def optin_service_bound_def plain_service_def plain_service_bound_def
          cluster_Client_def readonly_Client_def provider_def healthy_reconciler_def
          throttled_reconciler_def leaking_reconciler_def
        annotation_def serviceAnnotation_def nlbAnnotationNLBName_def nlbAnnotationNLBHost_def
          nlbAnnotationPort_def nlbAnnotationListener_def nlbAnnotationTarget_def
        Reconcile_def Reconcile_allocate_def checkAllocationValidity_def after_calls_def
          GetVacantNLBAndPortForService_def AssignNLBAndPortToServiceInNamespace_def
          ReleaseNLBAndPortForService_def GetAllocationForSVC_def GetNLBHost_def lookup2_def
          port_loop_hit port_loop_step port_loop_end Let_def Itoa_9000)

text \<open>
  C2 fails on the code: an opted-in service reconciled over the pool \<open>lb1\<close> with a provider
  that refuses the creation. \<open>ReleaseNLBAndPortForService\<close> finds no allocation record of
  the service (\<open>GetVacantNLBAndPortForService\<close> writes none) and does nothing: after the
  pass \<open>(lb1, 9000)\<close> is still entered for \<open>ns/a\<close>, and the next search, for \<open>ns/b\<close>,
  passes over it.
\<close>

theorem failed_create_keeps_pair_reserved:
  "calls (Reconcile throttled_reconciler [''lb1''] ''ns/a'' pool_lb1 (Some optin_service)) =
     [CallGet ''ns/a'' (Inr optin_service),
      CallCreateNLBListenerForPort ''lb1'' 9000 30080 ''ns/a''
        (Inl (AwsErr ''Throttling'' ''Rate exceeded''))] \<and>
   outcome (Reconcile throttled_reconciler [''lb1''] ''ns/a'' pool_lb1 (Some optin_service)) =
     Returns (\<lparr>Requeue = True\<rparr>, Some (AwsErr ''Throttling'' ''Rate exceeded'')) \<and>
   lookup2 (NlbAllocationMap (ledger (Reconcile throttled_reconciler [''lb1''] ''ns/a'' pool_lb1
      (Some optin_service)))) ''lb1'' 9000 = Some ''ns/a'' \<and>
   fst (GetVacantNLBAndPortForService [''lb1'']
      (ledger (Reconcile throttled_reconciler [''lb1''] ''ns/a'' pool_lb1 (Some optin_service)))
      ''ns/b'') = Inr (''lb1'', 9001)"
  by (simp add: pool_lb1_def optin_service_def optin_service_bound_def plain_service_def plain_service_bound_def
          cluster_Client_def readonly_Client_def provider_def healthy_reconciler_def
          throttled_reconciler_def leaking_reconciler_def
        annotation_def serviceAnnotation_def nlbAnnotationNLBName_def nlbAnnotationNLBHost_def
          nlbAnnotationPort_def nlbAnnotationListener_def nlbAnnotationTarget_def
        Reconcile_def Reconcile_allocate_def checkAllocationValidity_def after_calls_def
          GetVacantNLBAndPortForService_def AssignNLBAndPortToServiceInNamespace_def
          ReleaseNLBAndPortForService_def GetAllocationForSVC_def GetNLBHost_def lookup2_def
          port_loop_hit port_loop_step port_loop_end Let_def)

end
